theory Spec2Isabelle
  imports Complex_Main "HOL-Library.Word" "HOL-Library.AList"
begin

section \<open>Errors and configuration (paypack.service.ts)\<close>

text \<open>
  The class \<^verbatim>\<open>ApiError\<close>: an HTTP status code, a message, a machine-readable code and
  optional details (here the raw upstream body).
\<close>

record ApiError =
  statusCode :: nat
  message :: string
  code :: string
  details :: "string option"

text \<open>
  The constructor, with its default code \<^verbatim>\<open>GENERIC_API_ERROR\<close>; \<^verbatim>\<open>details || null\<close> turns
  absent and empty details into \<^verbatim>\<open>null\<close>.
\<close>

definition new_ApiError :: "nat \<Rightarrow> string \<Rightarrow> string option \<Rightarrow> string option \<Rightarrow> ApiError" where
  "new_ApiError sc msg c d =
     \<lparr>statusCode = sc, message = msg,
      code = (case c of None \<Rightarrow> ''GENERIC_API_ERROR'' | Some c' \<Rightarrow> c'),
      details = (case d of None \<Rightarrow> None | Some x \<Rightarrow> if x = [] then None else Some x)\<rparr>"

text \<open>
  What a \<^verbatim>\<open>throw\<close> can carry: an \<^verbatim>\<open>ApiError\<close>, a plain \<^verbatim>\<open>Error\<close> (with its message), or
  a \<^verbatim>\<open>TypeError\<close> or \<^verbatim>\<open>RangeError\<close> raised by the runtime or a library.
\<close>

datatype exn = ApiErr ApiError | PlainError string | TypeError string | RangeError string

text \<open>The object \<^verbatim>\<open>config\<close>, read from the environment once at start-up.\<close>

record config =
  PAYPACK_CLIENT_ID :: string
  PAYPACK_CLIENT_SECRET :: string
  PAYPACK_WEBHOOK_SECRET :: string

section \<open>Webhook signature verification\<close>

type_synonym byte = "8 word"

text \<open>
  \<^verbatim>\<open>Buffer.from(s)\<close> encodes a string as UTF-8. A header value and a base64 digest hold
  code points below 256 only, which is what \<^typ>\<open>char\<close> holds: a code point below 128 is
  one byte, any other one is two bytes.
\<close>

definition utf8 :: "char \<Rightarrow> byte list" where
  "utf8 c =
     (let n = (of_char c :: nat)
      in if n < 128 then [of_nat n]
         else [of_nat (192 + n div 64), of_nat (128 + n mod 64)])"

definition Buffer_from :: "string \<Rightarrow> byte list" where
  "Buffer_from s = concat (map utf8 s)"

text \<open>
  \<^verbatim>\<open>crypto.timingSafeEqual(a, b)\<close> on two buffers of the same length (the call is
  guarded by the length test): whether they hold the same bytes.
\<close>

definition timingSafeEqual :: "byte list \<Rightarrow> byte list \<Rightarrow> bool" where
  "timingSafeEqual a b = (a = b)"

definition missing_signature :: ApiError where
  "missing_signature = new_ApiError 403 ''Missing webhook signature.'' (Some ''INVALID_SIGNATURE'') None"

definition invalid_signature :: ApiError where
  "invalid_signature = new_ApiError 401 ''Invalid webhook signature.'' (Some ''INVALID_SIGNATURE'') None"

definition signature_verification_failed :: ApiError where
  "signature_verification_failed =
     new_ApiError 500 ''Could not verify webhook signature.'' (Some ''SIGNATURE_VERIFICATION_FAILED'') None"

text \<open>
  The body of the \<^verbatim>\<open>try\<close> block of \<^verbatim>\<open>verifyWebhookSignature\<close>. The parameter \<open>hmac\<close> is the
  library call \<^verbatim>\<open>crypto.createHmac("sha256", secret).update(rawBody).digest("base64")\<close>,
  a function of the secret and of the body. The raw body is absent when the JSON
  middleware saw no body; \<^verbatim>\<open>update(undefined)\<close> then throws a \<^verbatim>\<open>TypeError\<close>.
\<close>

definition verify_try :: "(string \<Rightarrow> byte list \<Rightarrow> string) \<Rightarrow> config \<Rightarrow> string \<Rightarrow> byte list option \<Rightarrow> exn + bool" where
  "verify_try hmac cfg signature rawBody =
     (case rawBody of
        None \<Rightarrow> Inl (TypeError ''The \"data\" argument must be of type string or an instance of Buffer'')
      | Some body \<Rightarrow>
          (let expectedSignature = hmac (PAYPACK_WEBHOOK_SECRET cfg) body;
               sigBuffer = Buffer_from signature;
               expectedSigBuffer = Buffer_from expectedSignature
           in if length sigBuffer \<noteq> length expectedSigBuffer
                 \<or> \<not> timingSafeEqual sigBuffer expectedSigBuffer
              then Inl (ApiErr invalid_signature)
              else Inr True))"

text \<open>
  \<^verbatim>\<open>verifyWebhookSignature(signature, rawBody)\<close>. The header is \<open>None\<close> when the request
  has none; \<^verbatim>\<open>!signature\<close> also holds for the empty string. Whatever the \<^verbatim>\<open>try\<close> block
  throws is caught and replaced by the 500 error.
\<close>

definition verifyWebhookSignature :: "(string \<Rightarrow> byte list \<Rightarrow> string) \<Rightarrow> config \<Rightarrow> string option \<Rightarrow> byte list option \<Rightarrow> exn + bool" where
  "verifyWebhookSignature hmac cfg signature rawBody =
     (case signature of
        None \<Rightarrow> Inl (ApiErr missing_signature)
      | Some sig \<Rightarrow>
          if sig = [] then Inl (ApiErr missing_signature)
          else (case verify_try hmac cfg sig rawBody of
                  Inr b \<Rightarrow> Inr b
                | Inl e \<Rightarrow> Inl (ApiErr signature_verification_failed)))"

section \<open>The persistent store (Prisma model \<^verbatim>\<open>Payment\<close>, migration.sql)\<close>

text \<open>
  One row of table \<^verbatim>\<open>Payment\<close>: primary key \<^verbatim>\<open>id\<close>, \<^verbatim>\<open>amount\<close>, \<^verbatim>\<open>status\<close> (text, default
  \<^verbatim>\<open>'PENDING'\<close>) and the nullable, unique \<^verbatim>\<open>paypackRef\<close>. The two timestamps are maintained
  by the database and read by no code of the server.
\<close>

record payment =
  payment_id :: string
  amount :: real
  status :: string
  paypackRef :: "string option"

datatype body = Text string | JsonError string | JsonPaymentId string

text \<open>
  The effects of the server that are visible from outside, in the order in which they
  happen: writes to the store, outbound calls to the gateway (the credentials sent to
  \<^verbatim>\<open>/auth/agents/authorize\<close>; amount, number and bearer token sent to
  \<^verbatim>\<open>/transactions/cashin\<close>), pushes to a socket (socket, event name, status) and removals
  from the socket registry.
\<close>

datatype effect =
    DbCreate string real
  | DbUpdateRef string string
  | DbUpdateStatus string string
  | NetAuthorize string string
  | NetCashin real string string
  | SocketEmit string string string
  | SocketsDelete string

text \<open>A promise returned by \<^verbatim>\<open>authenticate()\<close>: pending, or settled with a token or an error.\<close>

datatype promise_state = Pending | Fulfilled string | Rejected exn

text \<open>The mutable fields of class \<^verbatim>\<open>PaypackService\<close>; a promise is named by its index.\<close>

record PaypackService =
  accessToken :: "string option"
  tokenExpiresAt :: "int option"
  isRefreshingToken :: bool
  tokenRefreshPromise :: "nat option"

text \<open>
  The state of the process: the table, the map \<^verbatim>\<open>paymentSockets\<close> (a JavaScript \<^verbatim>\<open>Map\<close>,
  which keeps insertion order), the service object, the promises created so far and the
  effects so far. Times are milliseconds since the epoch.
\<close>

record server =
  payments :: "payment list"
  paymentSockets :: "(string \<times> string) list"
  service :: PaypackService
  promises :: "promise_state list"
  trace :: "effect list"

definition log_effect :: "effect \<Rightarrow> server \<Rightarrow> server" where
  "log_effect e s = s\<lparr>trace := trace s @ [e]\<rparr>"

subsection \<open>Store operations\<close>

text \<open>\<^verbatim>\<open>prisma.payment.create({ data: { amount } })\<close>; the new key is generated outside.\<close>

definition payment_create :: "string \<Rightarrow> real \<Rightarrow> server \<Rightarrow> exn + payment \<times> server" where
  "payment_create newId amt s =
     (if newId \<in> payment_id ` set (payments s)
      then Inl (PlainError ''Unique constraint failed on the fields: (id)'')
      else (let p = \<lparr>payment_id = newId, amount = amt, status = ''PENDING'', paypackRef = None\<rparr>
            in Inr (p, log_effect (DbCreate newId amt) (s\<lparr>payments := payments s @ [p]\<rparr>))))"

text \<open>\<^verbatim>\<open>prisma.payment.findFirst({ where: { paypackRef: ref } })\<close>\<close>

definition payment_findFirst :: "string \<Rightarrow> server \<Rightarrow> payment option" where
  "payment_findFirst r s = find (\<lambda>p. paypackRef p = Some r) (payments s)"

text \<open>
  \<^verbatim>\<open>prisma.payment.update({ where: { id }, data: { paypackRef } })\<close>: fails when no row
  has the key, or when another row already has the reference (unique index).
\<close>

definition payment_update_ref :: "string \<Rightarrow> string \<Rightarrow> server \<Rightarrow> exn + server" where
  "payment_update_ref i r s =
     (if i \<notin> payment_id ` set (payments s)
      then Inl (PlainError ''Record to update not found.'')
      else if list_ex (\<lambda>p. payment_id p \<noteq> i \<and> paypackRef p = Some r) (payments s)
      then Inl (PlainError ''Unique constraint failed on the fields: (paypackRef)'')
      else Inr (log_effect (DbUpdateRef i r)
             (s\<lparr>payments := map (\<lambda>p. if payment_id p = i then p\<lparr>paypackRef := Some r\<rparr> else p)
                                (payments s)\<rparr>)))"

text \<open>
  \<^verbatim>\<open>prisma.payment.update({ where: { id }, data: { status } })\<close>: fails when no row has
  the key; otherwise the row with the key gets the status (\<open>with_status\<close>).
\<close>

definition with_status :: "string \<Rightarrow> string \<Rightarrow> server \<Rightarrow> server" where
  "with_status i st s =
     log_effect (DbUpdateStatus i st)
       (s\<lparr>payments := map (\<lambda>p. if payment_id p = i then p\<lparr>status := st\<rparr> else p) (payments s)\<rparr>)"

definition payment_update_status :: "string \<Rightarrow> string \<Rightarrow> server \<Rightarrow> exn + server" where
  "payment_update_status i st s =
     (if i \<notin> payment_id ` set (payments s)
      then Inl (PlainError ''Record to update not found.'')
      else Inr (with_status i st s))"

section \<open>The gateway client (class \<^verbatim>\<open>PaypackService\<close>)\<close>

text \<open>What an \<^verbatim>\<open>axios\<close> call can end with: a 2xx response, or an \<^verbatim>\<open>AxiosError\<close>.\<close>

record AxiosError =
  response_status :: "nat option"
  response_data_message :: "string option"
  response_data_error :: "string option"
  response_data :: "string option"
  axios_message :: string

datatype 'a axios_reply = AxiosOk 'a | AxiosFail AxiosError

text \<open>
  The body of the authentication reply. An absent \<^verbatim>\<open>access\<close> counts as the empty string;
  \<^verbatim>\<open>expires\<close> is \<open>None\<close> when the field is absent or not a number.
\<close>

record PaypackAuthResponse =
  access :: string
  refresh :: string
  expires :: "int option"

record CashinParams =
  number :: string
  cashin_amount :: real

record CashinResponse =
  ref :: string
  cashin_status :: string
  response_amount :: real
  provider :: string
  kind :: string
  created_at :: string

text \<open>
  What the outside world answers during one run: the clock, the replies of the gateway,
  the key the database generates, and how a refresh that another request has in flight
  will end.
\<close>

record env =
  now :: int
  authReply :: "PaypackAuthResponse axios_reply"
  cashinReply :: "CashinResponse axios_reply"
  newPaymentId :: string
  inflightRefresh :: "exn + string"

text \<open>JavaScript truthiness of an optional string and of an optional number.\<close>

definition truthy :: "string option \<Rightarrow> bool" where
  "truthy v = (case v of None \<Rightarrow> False | Some x \<Rightarrow> x \<noteq> [])"

definition truthy_num :: "nat option \<Rightarrow> bool" where
  "truthy_num v = (case v of None \<Rightarrow> False | Some x \<Rightarrow> x \<noteq> 0)"

text \<open>\<^verbatim>\<open>handleApiError(error, context)\<close> always throws; this is the error it throws.\<close>

definition handleApiError :: "exn + AxiosError \<Rightarrow> ApiError" where
  "handleApiError err =
     (case err of
        Inr ae \<Rightarrow>
          (let st = (if truthy_num (response_status ae) then the (response_status ae) else 500);
               msg = (if truthy (response_data_message ae) then the (response_data_message ae)
                      else if truthy (response_data_error ae) then the (response_data_error ae)
                      else axios_message ae)
           in new_ApiError st (''Payment Provider Error: '' @ msg) (Some ''PAYPACK_API_ERROR'')
                (response_data ae))
      | Inl e \<Rightarrow>
          (let m = (case e of ApiErr a \<Rightarrow> message a | PlainError t \<Rightarrow> t | TypeError t \<Rightarrow> t
                    | RangeError t \<Rightarrow> t)
           in new_ApiError 500 (if m \<noteq> [] then m else ''An unknown error occurred.'')
                (Some ''UNKNOWN_PAYPACK_ERROR'') None))"

subsection \<open>Token management\<close>

text \<open>
  The test of \<^verbatim>\<open>getValidAccessToken\<close> for a usable cached token:
  \<^verbatim>\<open>accessToken && tokenExpiresAt && isBefore(new Date(), addSeconds(tokenExpiresAt, -60))\<close>.
\<close>

definition token_valid :: "PaypackService \<Rightarrow> int \<Rightarrow> bool" where
  "token_valid svc t =
     (truthy (accessToken svc) \<and>
      (case tokenExpiresAt svc of None \<Rightarrow> False | Some e \<Rightarrow> t < e - 60 * 1000))"

text \<open>
  \<^verbatim>\<open>authenticate()\<close> runs in two steps. Up to its \<^verbatim>\<open>await\<close> it issues the request and
  returns a pending promise.
\<close>

definition authenticate_start :: "config \<Rightarrow> server \<Rightarrow> nat \<times> server" where
  "authenticate_start cfg s =
     (let p = length (promises s)
      in (p, log_effect (NetAuthorize (PAYPACK_CLIENT_ID cfg) (PAYPACK_CLIENT_SECRET cfg))
               (s\<lparr>promises := promises s @ [Pending]\<rparr>)))"

text \<open>
  \<^verbatim>\<open>new Date(expires * 1000)\<close>: its time value, or \<open>None\<close> for an invalid date (no number, or
  more than 8.64e15 milliseconds from the epoch). On an invalid date the call of
  \<^verbatim>\<open>toISOString()\<close> for the log line throws a \<^verbatim>\<open>RangeError\<close> inside the \<^verbatim>\<open>try\<close> block.
\<close>

definition token_expiry :: "PaypackAuthResponse \<Rightarrow> int option" where
  "token_expiry d =
     (case expires d of
        None \<Rightarrow> None
      | Some e \<Rightarrow>
          if - 8640000000000000 \<le> e * 1000 \<and> e * 1000 \<le> 8640000000000000
          then Some (e * 1000) else None)"

text \<open>
  When the reply arrives, the rest of \<^verbatim>\<open>authenticate()\<close> runs: it caches the token and
  fulfils the promise, or clears the cache and rejects the promise with the error of
  \<^verbatim>\<open>handleApiError\<close>.
\<close>

definition authenticate_result :: "PaypackAuthResponse axios_reply \<Rightarrow> exn + string" where
  "authenticate_result r =
     (case r of
        AxiosOk d \<Rightarrow>
          if access d = []
          then Inl (ApiErr (handleApiError
                 (Inl (PlainError ''Authentication response did not include an access token.''))))
          else (case token_expiry d of
                  None \<Rightarrow> Inl (ApiErr (handleApiError (Inl (RangeError ''Invalid time value''))))
                | Some e \<Rightarrow> Inr (access d))
      | AxiosFail ae \<Rightarrow> Inl (ApiErr (handleApiError (Inr ae))))"

text \<open>A request is answered once, so the promise is pending when its reply arrives.\<close>

definition settle :: "nat \<Rightarrow> exn + string \<Rightarrow> promise_state list \<Rightarrow> promise_state list" where
  "settle p r ps =
     (if p < length ps then ps[p := (case r of Inl e \<Rightarrow> Rejected e | Inr t \<Rightarrow> Fulfilled t)] else ps)"

definition authenticate_finish :: "nat \<Rightarrow> PaypackAuthResponse axios_reply \<Rightarrow> server \<Rightarrow> server" where
  "authenticate_finish p r s =
     (let svc = service s;
          svc' = (case r of
                    AxiosOk d \<Rightarrow>
                      if access d = []
                      then svc\<lparr>accessToken := None, tokenExpiresAt := None\<rparr>
                      else (case token_expiry d of
                              None \<Rightarrow> svc\<lparr>accessToken := None, tokenExpiresAt := None\<rparr>
                            | Some e \<Rightarrow> svc\<lparr>accessToken := Some (access d), tokenExpiresAt := Some e\<rparr>)
                  | AxiosFail ae \<Rightarrow> svc\<lparr>accessToken := None, tokenExpiresAt := None\<rparr>)
      in s\<lparr>service := svc', promises := settle p (authenticate_result r) (promises s)\<rparr>)"

text \<open>
  What a caller of \<^verbatim>\<open>getValidAccessToken()\<close> holds when the synchronous part of the call
  is over: the cached token, the promise of a refresh that was already in flight, or the
  promise of the refresh this call has started.
\<close>

datatype token_handle = Cached string | Joined nat | Started nat

definition getValidAccessToken_start :: "config \<Rightarrow> int \<Rightarrow> server \<Rightarrow> token_handle \<times> server" where
  "getValidAccessToken_start cfg t s =
     (let svc = service s
      in if isRefreshingToken svc \<and> tokenRefreshPromise svc \<noteq> None
         then (Joined (the (tokenRefreshPromise svc)), s)
         else if token_valid svc t
         then (Cached (the (accessToken svc)), s)
         else (let s1 = s\<lparr>service := svc\<lparr>isRefreshingToken := True\<rparr>\<rparr>;
                   (p, s2) = authenticate_start cfg s1
               in (Started p, s2\<lparr>service := (service s2)\<lparr>tokenRefreshPromise := Some p\<rparr>\<rparr>)))"

text \<open>The \<^verbatim>\<open>finally\<close> block, run by the call that started the refresh.\<close>

definition getValidAccessToken_finally :: "server \<Rightarrow> server" where
  "getValidAccessToken_finally s =
     s\<lparr>service := (service s)\<lparr>isRefreshingToken := False, tokenRefreshPromise := None\<rparr>\<rparr>"

text \<open>What awaiting promise \<open>p\<close> yields, once it is settled.\<close>

definition promise_outcome :: "server \<Rightarrow> nat \<Rightarrow> (exn + string) option" where
  "promise_outcome s p =
     (if p < length (promises s)
      then (case promises s ! p of
              Pending \<Rightarrow> None | Fulfilled t \<Rightarrow> Some (Inr t) | Rejected e \<Rightarrow> Some (Inl e))
      else None)"

text \<open>
  A whole call of \<^verbatim>\<open>getValidAccessToken()\<close> with no other request running in between.
  A call that joins a refresh still pending gets what the environment says that refresh
  ends with.
\<close>

definition getValidAccessToken :: "config \<Rightarrow> env \<Rightarrow> server \<Rightarrow> (exn + string) \<times> server" where
  "getValidAccessToken cfg ev s =
     (case getValidAccessToken_start cfg (now ev) s of
        (Cached tok, s1) \<Rightarrow> (Inr tok, s1)
      | (Joined p, s1) \<Rightarrow>
          ((case promise_outcome s1 p of None \<Rightarrow> inflightRefresh ev | Some r \<Rightarrow> r), s1)
      | (Started p, s1) \<Rightarrow>
          (let s2 = authenticate_finish p (authReply ev) s1
           in (authenticate_result (authReply ev), getValidAccessToken_finally s2)))"

text \<open>
  The field initialisers of the class, and \<^verbatim>\<open>createPaypackService()\<close>, which refuses to build
  the service when a credential or the webhook secret is empty.
\<close>

definition new_PaypackService :: PaypackService where
  "new_PaypackService =
     \<lparr>accessToken = None, tokenExpiresAt = None, isRefreshingToken = False, tokenRefreshPromise = None\<rparr>"

definition createPaypackService :: "config \<Rightarrow> exn + PaypackService" where
  "createPaypackService cfg =
     (if PAYPACK_CLIENT_ID cfg = [] \<or> PAYPACK_CLIENT_SECRET cfg = []
      then Inl (PlainError ''Paypack service is not configured. Missing API credentials.'')
      else if PAYPACK_WEBHOOK_SECRET cfg = []
      then Inl (PlainError ''Paypack service is not configured. Missing Webhook Secret.'')
      else Inr new_PaypackService)"

subsection \<open>Cash-in\<close>

text \<open>The regular expression \<^verbatim>\<open>/^07\d{8}$/\<close>: \<^verbatim>\<open>07\<close> and eight decimal digits, nothing else.\<close>

definition is_digit :: "char \<Rightarrow> bool" where
  "is_digit c = (c \<in> set ''0123456789'')"

definition phone_format :: "string \<Rightarrow> bool" where
  "phone_format n = (length n = 10 \<and> take 2 n = ''07'' \<and> list_all is_digit (drop 2 n))"

definition invalid_amount :: ApiError where
  "invalid_amount = new_ApiError 400 ''Payment amount must be at least 100 RWF.'' (Some ''INVALID_AMOUNT'') None"

definition invalid_phone :: ApiError where
  "invalid_phone =
     new_ApiError 400 ''Invalid Rwandan phone number format. Must be 07XXXXXXXX.'' (Some ''INVALID_PHONE'') None"

text \<open>
  \<^verbatim>\<open>cashin(params)\<close>: the two checks, then the token (an error of
  \<^verbatim>\<open>getValidAccessToken\<close> is outside the \<^verbatim>\<open>try\<close> and passes through), then the request.
\<close>

definition cashin :: "config \<Rightarrow> env \<Rightarrow> CashinParams \<Rightarrow> server \<Rightarrow> (exn + CashinResponse) \<times> server" where
  "cashin cfg ev params s =
     (if cashin_amount params < 100 then (Inl (ApiErr invalid_amount), s)
      else if \<not> phone_format (number params) then (Inl (ApiErr invalid_phone), s)
      else (case getValidAccessToken cfg ev s of
              (Inl e, s1) \<Rightarrow> (Inl e, s1)
            | (Inr token, s1) \<Rightarrow>
                (let s2 = log_effect (NetCashin (cashin_amount params) (number params) token) s1
                 in (case cashinReply ev of
                       AxiosOk d \<Rightarrow> (Inr d, s2)
                     | AxiosFail ae \<Rightarrow> (Inl (ApiErr (handleApiError (Inr ae))), s2)))))"

section \<open>The routes and the socket handlers (server.ts)\<close>

type_synonym response = "nat \<times> body"

definition truthy_amount :: "real option \<Rightarrow> bool" where
  "truthy_amount v = (case v of None \<Rightarrow> False | Some x \<Rightarrow> x \<noteq> 0)"

text \<open>
  \<^verbatim>\<open>POST /api/initiate-payment\<close> with the two fields of the request body (\<open>None\<close> when
  a field is missing). Every exception of the \<^verbatim>\<open>try\<close> block ends in the 500 response.
\<close>

definition initiate_payment :: "config \<Rightarrow> env \<Rightarrow> string option \<Rightarrow> real option \<Rightarrow> server \<Rightarrow> response \<times> server" where
  "initiate_payment cfg ev phoneNumber amt s =
     (if \<not> truthy phoneNumber \<or> \<not> truthy_amount amt
      then ((400, JsonError ''Phone number and amount are required.''), s)
      else (case payment_create (newPaymentId ev) (the amt) s of
              Inl e \<Rightarrow> ((500, JsonError ''Failed to initiate payment.''), s)
            | Inr (pay, s1) \<Rightarrow>
                (case cashin cfg ev \<lparr>number = the phoneNumber, cashin_amount = the amt\<rparr> s1 of
                   (Inl e, s2) \<Rightarrow> ((500, JsonError ''Failed to initiate payment.''), s2)
                 | (Inr paypackResponse, s2) \<Rightarrow>
                     (case payment_update_ref (payment_id pay) (ref paypackResponse) s2 of
                        Inl e \<Rightarrow> ((500, JsonError ''Failed to initiate payment.''), s2)
                      | Inr s3 \<Rightarrow> ((200, JsonPaymentId (payment_id pay)), s3)))))"

text \<open>
  A webhook request: the header \<^verbatim>\<open>x-paypack-signature\<close>, the raw body kept by the JSON
  middleware, and the field \<^verbatim>\<open>data\<close> of the parsed body with its \<^verbatim>\<open>ref\<close> and \<^verbatim>\<open>status\<close>.
\<close>

record webhook_data =
  data_ref :: string
  data_status :: string

record webhook_request =
  signature_header :: "string option"
  rawBody :: "byte list option"
  body_data :: "webhook_data option"

definition map_status :: "string \<Rightarrow> string" where
  "map_status st = (if st = ''successful'' then ''SUCCESSFUL'' else ''FAILED'')"

text \<open>
  The part of \<^verbatim>\<open>POST /api/webhook\<close> after the signature check: find the payment, write
  the new status, then notify the registered socket and forget it.
\<close>

definition notify :: "string \<Rightarrow> string \<Rightarrow> server \<Rightarrow> server" where
  "notify i newStatus s =
     (let socketId = map_of (paymentSockets s) i
      in if truthy socketId
         then (let s1 = log_effect (SocketEmit (the socketId) ''payment:update'' newStatus) s
               in log_effect (SocketsDelete i)
                    (s1\<lparr>paymentSockets := AList.delete i (paymentSockets s1)\<rparr>))
         else s)"

definition process_webhook :: "webhook_data option \<Rightarrow> server \<Rightarrow> response \<times> server" where
  "process_webhook body s =
     (case body of
        None \<Rightarrow> ((500, Text ''Error processing webhook.''), s)
      | Some d \<Rightarrow>
          (case payment_findFirst (data_ref d) s of
             None \<Rightarrow> ((404, Text ''Payment not found.''), s)
           | Some pay \<Rightarrow>
               (let newStatus = map_status (data_status d)
                in (case payment_update_status (payment_id pay) newStatus s of
                      Inl e \<Rightarrow> ((500, Text ''Error processing webhook.''), s)
                    | Inr s1 \<Rightarrow>
                        ((200, Text ''Webhook processed.''), notify (payment_id pay) newStatus s1)))))"

text \<open>\<^verbatim>\<open>POST /api/webhook\<close>\<close>

definition webhook :: "(string \<Rightarrow> byte list \<Rightarrow> string) \<Rightarrow> config \<Rightarrow> webhook_request \<Rightarrow> server \<Rightarrow> response \<times> server" where
  "webhook hmac cfg req s =
     (case verifyWebhookSignature hmac cfg (signature_header req) (rawBody req) of
        Inl e \<Rightarrow> ((500, Text ''Error processing webhook.''), s)
      | Inr valid \<Rightarrow>
          if \<not> valid then ((401, Text ''Invalid signature.''), s)
          else process_webhook (body_data req) s)"

text \<open>The socket handlers \<^verbatim>\<open>registerPayment\<close> and \<^verbatim>\<open>disconnect\<close>.\<close>

definition registerPayment :: "string \<Rightarrow> string \<Rightarrow> server \<Rightarrow> server" where
  "registerPayment socket_id paymentId s =
     s\<lparr>paymentSockets := AList.update paymentId socket_id (paymentSockets s)\<rparr>"

fun delete_first_of :: "string \<Rightarrow> (string \<times> string) list \<Rightarrow> (string \<times> string) list" where
  "delete_first_of socket_id [] = []"
| "delete_first_of socket_id ((paymentId, socketId) # rest) =
     (if socketId = socket_id then rest else (paymentId, socketId) # delete_first_of socket_id rest)"

definition disconnect :: "string \<Rightarrow> server \<Rightarrow> server" where
  "disconnect socket_id s = s\<lparr>paymentSockets := delete_first_of socket_id (paymentSockets s)\<rparr>"

text \<open>The operations of the system, and what each does to the state.\<close>

datatype operation =
    InitiatePayment env "string option" "real option"
  | Webhook webhook_request
  | RegisterPayment string string
  | Disconnect string

definition apply_operation :: "(string \<Rightarrow> byte list \<Rightarrow> string) \<Rightarrow> config \<Rightarrow> operation \<Rightarrow> server \<Rightarrow> server" where
  "apply_operation hmac cfg op s =
     (case op of
        InitiatePayment ev phoneNumber amt \<Rightarrow> snd (initiate_payment cfg ev phoneNumber amt s)
      | Webhook req \<Rightarrow> snd (webhook hmac cfg req s)
      | RegisterPayment socket_id paymentId \<Rightarrow> registerPayment socket_id paymentId s
      | Disconnect socket_id \<Rightarrow> disconnect socket_id s)"

section \<open>Overlapping calls of \<^verbatim>\<open>getValidAccessToken\<close>\<close>

text \<open>
  JavaScript runs each stretch of code between two \<^verbatim>\<open>await\<close>s without interruption. So
  calls that overlap are interleavings of the three steps above: the synchronous part of
  a call (\<open>getValidAccessToken_start\<close>), the arrival of the reply of the gateway
  (\<open>authenticate_finish\<close>), and the \<^verbatim>\<open>finally\<close> block of the call that started the refresh
  (\<open>getValidAccessToken_finally\<close>). Several calls arriving one after the other, at the
  given times, each return a handle.
\<close>

fun getValidAccessToken_calls :: "config \<Rightarrow> int list \<Rightarrow> server \<Rightarrow> token_handle list \<times> server" where
  "getValidAccessToken_calls cfg [] s = ([], s)"
| "getValidAccessToken_calls cfg (t # ts) s =
     (let (h, s1) = getValidAccessToken_start cfg t s;
          (hs, s2) = getValidAccessToken_calls cfg ts s1
      in (h # hs, s2))"

text \<open>What the caller holding a handle receives: the cached token, or what its promise settles with.\<close>

definition handle_outcome :: "server \<Rightarrow> token_handle \<Rightarrow> (exn + string) option" where
  "handle_outcome s h =
     (case h of
        Cached tok \<Rightarrow> Some (Inr tok)
      | Joined p \<Rightarrow> promise_outcome s p
      | Started p \<Rightarrow> promise_outcome s p)"

text \<open>
  One refresh cycle: calls at times \<open>ts1\<close> arrive, the reply \<open>r\<close> to the request of promise
  \<open>p\<close> arrives, calls at times \<open>ts2\<close> arrive before the \<^verbatim>\<open>finally\<close> block runs, and it runs.
\<close>

definition refresh_cycle :: "config \<Rightarrow> int list \<Rightarrow> nat \<Rightarrow> PaypackAuthResponse axios_reply \<Rightarrow> int list \<Rightarrow> server
    \<Rightarrow> token_handle list \<times> server" where
  "refresh_cycle cfg ts1 p r ts2 s =
     (let (hs1, s1) = getValidAccessToken_calls cfg ts1 s;
          s2 = authenticate_finish p r s1;
          (hs2, s3) = getValidAccessToken_calls cfg ts2 s2
      in (hs1 @ hs2, getValidAccessToken_finally s3))"

text \<open>
  The state a call leaves behind when it starts a refresh: the flag set, the request
  sent, and the new pending promise stored in \<^verbatim>\<open>tokenRefreshPromise\<close>.
\<close>

definition refreshing :: "config \<Rightarrow> server \<Rightarrow> server" where
  "refreshing cfg s =
     s\<lparr>service := (service s)\<lparr>isRefreshingToken := True, tokenRefreshPromise := Some (length (promises s))\<rparr>,
       promises := promises s @ [Pending],
       trace := trace s @ [NetAuthorize (PAYPACK_CLIENT_ID cfg) (PAYPACK_CLIENT_SECRET cfg)]\<rparr>"

section \<open>Concrete instances\<close>

text \<open>
  A stand-in for the digest of the library, used at concrete inputs only, and the
  scenario of the specification: payment \<^verbatim>\<open>p1\<close> of 500 to \<^verbatim>\<open>0781234567\<close>, accepted by the
  gateway under reference \<^verbatim>\<open>abc123\<close>, with socket \<^verbatim>\<open>sock1\<close> registered for it.
\<close>

definition example_hmac :: "string \<Rightarrow> byte list \<Rightarrow> string" where
  "example_hmac secret bs = (case bs of [] \<Rightarrow> ''AA=='' | b # _ \<Rightarrow> if b = 123 then ''ew=='' else ''Pw=='')"

definition example_config :: config where
  "example_config =
     \<lparr>PAYPACK_CLIENT_ID = ''client'', PAYPACK_CLIENT_SECRET = ''secret'', PAYPACK_WEBHOOK_SECRET = ''whsec''\<rparr>"

definition example_server :: "string \<Rightarrow> server" where
  "example_server st =
     \<lparr>payments = [\<lparr>payment_id = ''p1'', amount = 500, status = st, paypackRef = Some ''abc123''\<rparr>],
      paymentSockets = [(''p1'', ''sock1'')],
      service = new_PaypackService, promises = [], trace = []\<rparr>"

definition example_request :: "string \<Rightarrow> webhook_request" where
  "example_request st =
     \<lparr>signature_header = Some ''ew=='', rawBody = Some [123, 125],
      body_data = Some \<lparr>data_ref = ''abc123'', data_status = st\<rparr>\<rparr>"

definition example_env :: env where
  "example_env =
     \<lparr>now = 1000,
      authReply = AxiosOk \<lparr>access = ''tok'', refresh = ''ref'', expires = Some 4000\<rparr>,
      cashinReply = AxiosOk \<lparr>ref = ''abc123'', cashin_status = ''pending'', response_amount = 500,
                              provider = ''mtn'', kind = ''CASHIN'', created_at = ''2025-10-13''\<rparr>,
      newPaymentId = ''p2'',
      inflightRefresh = Inr ''tok''\<rparr>"

definition empty_server :: server where
  "empty_server =
     \<lparr>payments = [], paymentSockets = [], service = new_PaypackService, promises = [], trace = []\<rparr>"

section \<open>Properties\<close>

lemma of_char_lt: "(of_char c :: nat) < 256"
proof -
  have "(of_char c :: nat) mod 256 < 256" by simp
  then show ?thesis by (simp only: of_char_mod_256)
qed

lemma byte_of_nat_inj: "a < 256 \<Longrightarrow> b < 256 \<Longrightarrow> (of_nat a :: byte) = of_nat b \<Longrightarrow> a = b"
  by (simp add: word_of_nat_eq_iff take_bit_nat_eq_self)

subsection \<open>The UTF-8 encoding of a header value is injective\<close>

lemma utf8_ne: "utf8 c \<noteq> []"
  by (simp add: utf8_def Let_def)

lemma utf8_cases:
  "(\<exists>n. n < 128 \<and> (of_char c :: nat) = n \<and> utf8 c = [of_nat n]) \<or>
   (\<exists>n. 128 \<le> n \<and> n < 256 \<and> (of_char c :: nat) = n \<and> utf8 c = [of_nat (192 + n div 64), of_nat (128 + n mod 64)])"
  using of_char_lt [of c] by (auto simp: utf8_def Let_def)

lemma utf8_hd_inj:
  assumes "utf8 c @ xs = utf8 d @ ys"
  shows "c = d \<and> xs = ys"
proof -
  let ?n = "of_char c :: nat" and ?m = "of_char d :: nat"
  have n: "?n < 256" and m: "?m < 256" by (rule of_char_lt)+
  have hi: "\<And>k::nat. k < 256 \<Longrightarrow> 192 + k div 64 < 256" by arith
  have lo: "\<And>k::nat. 128 + k mod 64 < 256" by arith
  have "?n = ?m \<and> xs = ys"
  proof (cases "?n < 128")
    case True
    note c1 = this
    show ?thesis
    proof (cases "?m < 128")
      case True
      with c1 assms have "(of_nat ?n :: byte) = of_nat ?m" and "xs = ys"
        by (simp_all add: utf8_def Let_def)
      with n m show ?thesis by (blast dest: byte_of_nat_inj)
    next
      case False
      with c1 assms have "(of_nat ?n :: byte) = of_nat (192 + ?m div 64)"
        by (simp add: utf8_def Let_def)
      with n hi [OF m] have "?n = 192 + ?m div 64" by (blast dest: byte_of_nat_inj)
      with c1 show ?thesis by arith
    qed
  next
    case False
    note c2 = this
    show ?thesis
    proof (cases "?m < 128")
      case True
      with c2 assms have "(of_nat (192 + ?n div 64) :: byte) = of_nat ?m"
        by (simp add: utf8_def Let_def)
      with m hi [OF n] have "192 + ?n div 64 = ?m" by (blast dest: byte_of_nat_inj)
      with True show ?thesis by arith
    next
      case False
      with c2 assms have a: "(of_nat (192 + ?n div 64) :: byte) = of_nat (192 + ?m div 64)"
        and b: "(of_nat (128 + ?n mod 64) :: byte) = of_nat (128 + ?m mod 64)" and "xs = ys"
        by (simp_all add: utf8_def Let_def)
      from a hi [OF n] hi [OF m] have "192 + ?n div 64 = 192 + ?m div 64"
        by (blast dest: byte_of_nat_inj)
      moreover from b lo [of ?n] lo [of ?m] have "128 + ?n mod 64 = 128 + ?m mod 64"
        by (blast dest: byte_of_nat_inj)
      ultimately have "?n = ?m" by (metis add_left_cancel div_mult_mod_eq)
      with \<open>xs = ys\<close> show ?thesis by simp
    qed
  qed
  then show ?thesis by simp
qed

lemma Buffer_from_inj: "Buffer_from s = Buffer_from t \<Longrightarrow> s = t"
proof (induction s arbitrary: t)
  case Nil
  then show ?case
    by (cases t) (simp_all add: Buffer_from_def utf8_ne)
next
  case (Cons c s)
  show ?case
  proof (cases t)
    case Nil
    with Cons.prems show ?thesis by (simp add: Buffer_from_def utf8_ne)
  next
    case (Cons d t')
    with Cons.prems have "utf8 c @ Buffer_from s = utf8 d @ Buffer_from t'"
      by (simp add: Buffer_from_def)
    then have "c = d \<and> Buffer_from s = Buffer_from t'" by (rule utf8_hd_inj)
    with Cons.IH Cons show ?thesis by simp
  qed
qed


subsection \<open>Signature verification\<close>

lemma verify_try_iff:
  "verify_try hmac cfg sig (Some body) = Inr True \<longleftrightarrow> sig = hmac (PAYPACK_WEBHOOK_SECRET cfg) body"
  by (auto simp: verify_try_def Let_def timingSafeEqual_def dest: Buffer_from_inj)

lemma verify_try_mismatch:
  "sig \<noteq> hmac (PAYPACK_WEBHOOK_SECRET cfg) body \<Longrightarrow>
   verify_try hmac cfg sig (Some body) = Inl (ApiErr invalid_signature)"
  by (auto simp: verify_try_def Let_def timingSafeEqual_def dest: Buffer_from_inj)

lemma verify_try_not_False: "verify_try hmac cfg sig raw \<noteq> Inr False"
  by (simp add: verify_try_def Let_def split: option.splits)

lemma verify_not_False: "verifyWebhookSignature hmac cfg sg raw \<noteq> Inr False"
proof (cases sg)
  case None
  then show ?thesis by (simp add: verifyWebhookSignature_def)
next
  case (Some x)
  then show ?thesis
    using verify_try_not_False [of hmac cfg x raw]
    by (cases "verify_try hmac cfg x raw") (auto simp: verifyWebhookSignature_def)
qed

lemma verify_Some_iff:
  "verifyWebhookSignature hmac cfg (Some sig) (Some body) = Inr True \<longleftrightarrow>
   sig \<noteq> [] \<and> sig = hmac (PAYPACK_WEBHOOK_SECRET cfg) body"
  using verify_try_iff [of hmac cfg sig body] verify_try_not_False [of hmac cfg sig "Some body"]
  by (auto simp: verifyWebhookSignature_def split: sum.splits)

lemma verify_Some_mismatch:
  "sig \<noteq> [] \<Longrightarrow> sig \<noteq> hmac (PAYPACK_WEBHOOK_SECRET cfg) body \<Longrightarrow>
   verifyWebhookSignature hmac cfg (Some sig) (Some body) = Inl (ApiErr signature_verification_failed)"
  by (simp add: verifyWebhookSignature_def verify_try_mismatch)




lemma process_webhook_not_401: "fst (fst (process_webhook bd s)) \<noteq> 401"
  by (simp add: process_webhook_def Let_def split: option.splits sum.splits)

text \<open>
  Claim C6. Without the signature header, verification throws the 403 error with code
  \<^verbatim>\<open>INVALID_SIGNATURE\<close> whatever the body is, and the webhook route answers with an error
  and leaves the store, the registry and the trace as they were.
\<close>

theorem missing_signature_header_rejected:
  "verifyWebhookSignature hmac cfg None raw = Inl (ApiErr missing_signature)
   \<and> verifyWebhookSignature hmac cfg (Some []) raw = Inl (ApiErr missing_signature)
   \<and> statusCode missing_signature = 403
   \<and> code missing_signature = ''INVALID_SIGNATURE''
   \<and> webhook hmac cfg (req\<lparr>signature_header := None\<rparr>) s = ((500, Text ''Error processing webhook.''), s)"
proof -
  have absent: "verifyWebhookSignature hmac cfg None b = Inl (ApiErr missing_signature)" for b
    by (simp add: verifyWebhookSignature_def)
  have empty: "verifyWebhookSignature hmac cfg (Some []) raw = Inl (ApiErr missing_signature)"
    by (simp add: verifyWebhookSignature_def)
  have err: "statusCode missing_signature = 403 \<and> code missing_signature = ''INVALID_SIGNATURE''"
    by (simp add: missing_signature_def new_ApiError_def)
  have "webhook hmac cfg (req\<lparr>signature_header := None\<rparr>) s = ((500, Text ''Error processing webhook.''), s)"
    by (simp add: webhook_def absent)
  with absent empty err show ?thesis by simp
qed

text \<open>
  Claim C10. \<^verbatim>\<open>verifyWebhookSignature\<close> never returns false. For a signature that is present
  and differs from the digest, the \<^verbatim>\<open>try\<close> block throws the 401 error, which the \<^verbatim>\<open>catch\<close>
  replaces by the 500 error \<^verbatim>\<open>SIGNATURE_VERIFICATION_FAILED\<close>. So the webhook route never
  answers 401.
\<close>

theorem verify_never_false:
  "verifyWebhookSignature hmac cfg sg raw \<noteq> Inr False
   \<and> (sig \<noteq> [] \<longrightarrow> sig \<noteq> hmac (PAYPACK_WEBHOOK_SECRET cfg) bs \<longrightarrow>
        verify_try hmac cfg sig (Some bs) = Inl (ApiErr invalid_signature)
        \<and> verifyWebhookSignature hmac cfg (Some sig) (Some bs) = Inl (ApiErr signature_verification_failed))
   \<and> statusCode invalid_signature = 401
   \<and> statusCode signature_verification_failed = 500
   \<and> code signature_verification_failed = ''SIGNATURE_VERIFICATION_FAILED''
   \<and> fst (fst (webhook hmac cfg req s)) \<noteq> 401"
proof -
  have "fst (fst (webhook hmac cfg req s)) \<noteq> 401"
    using verify_not_False [of hmac cfg "signature_header req" "rawBody req"]
      process_webhook_not_401 [of "body_data req" s]
    by (cases "verifyWebhookSignature hmac cfg (signature_header req) (rawBody req)")
       (auto simp: webhook_def)
  then show ?thesis
    by (simp add: verify_not_False verify_try_mismatch verify_Some_mismatch
        invalid_signature_def signature_verification_failed_def new_ApiError_def)
qed

theorem verify_never_false_witness:
  "''ew=x'' \<noteq> [] \<and> ''ew=x'' \<noteq> example_hmac (PAYPACK_WEBHOOK_SECRET example_config) [123, 125]
   \<and> verify_try example_hmac example_config ''ew=x'' (Some [123, 125]) = Inl (ApiErr invalid_signature)
   \<and> verifyWebhookSignature example_hmac example_config (Some ''ew=x'') (Some [123, 125])
        = Inl (ApiErr signature_verification_failed)"
  using verify_never_false [of example_hmac example_config None None "''ew=x''" "[123, 125]"]
  by (simp add: example_hmac_def)

subsection \<open>Webhook processing\<close>

lemma find_SomeD: "find P xs = Some x \<Longrightarrow> x \<in> set xs \<and> P x"
  by (induction xs) (auto split: if_splits)

lemma find_map_preserve:
  "(\<And>x. P (f x) = P x) \<Longrightarrow> find P (map f xs) = map_option f (find P xs)"
  by (induction xs) auto

lemma payment_update_status_found:
  "i \<in> payment_id ` set (payments s) \<Longrightarrow> payment_update_status i st s = Inr (with_status i st s)"
  by (simp add: payment_update_status_def)

lemma process_webhook_found:
  assumes "payment_findFirst (data_ref d) s = Some pay"
  shows "process_webhook (Some d) s =
           ((200, Text ''Webhook processed.''),
            notify (payment_id pay) (map_status (data_status d))
              (with_status (payment_id pay) (map_status (data_status d)) s))"
proof -
  from assms have "pay \<in> set (payments s)"
    by (auto simp: payment_findFirst_def dest: find_SomeD)
  then have "payment_id pay \<in> payment_id ` set (payments s)" by (rule imageI)
  with assms show ?thesis
    by (simp add: process_webhook_def Let_def payment_update_status_found)
qed

lemma findFirst_with_status:
  "payment_findFirst r (with_status i st s) =
     map_option (\<lambda>p. if payment_id p = i then p\<lparr>status := st\<rparr> else p) (payment_findFirst r s)"
  by (simp add: payment_findFirst_def with_status_def log_effect_def find_map_preserve)

lemma payments_notify [simp]: "payments (notify i st s) = payments s"
  by (simp add: notify_def Let_def log_effect_def)

lemma findFirst_notify [simp]: "payment_findFirst r (notify i st s) = payment_findFirst r s"
  by (simp add: payment_findFirst_def)

lemma webhook_verified:
  "verifyWebhookSignature hmac cfg (signature_header req) (rawBody req) = Inr True \<Longrightarrow>
   webhook hmac cfg req s = process_webhook (body_data req) s"
  by (simp add: webhook_def)

text \<open>
  Claim C7. For a webhook with a valid signature whose reference finds a payment, the route
  answers 200 and the stored status of that payment is \<^verbatim>\<open>SUCCESSFUL\<close> when the upstream
  status is the literal \<^verbatim>\<open>successful\<close> and \<^verbatim>\<open>FAILED\<close> for every other value.
\<close>

theorem webhook_maps_upstream_status:
  assumes verified: "verifyWebhookSignature hmac cfg (signature_header req) (rawBody req) = Inr True"
    and parsed: "body_data req = Some d"
    and resolves: "payment_findFirst (data_ref d) s = Some pay"
  shows "fst (webhook hmac cfg req s) = (200, Text ''Webhook processed.'')
       \<and> payment_findFirst (data_ref d) (snd (webhook hmac cfg req s))
           = Some (pay\<lparr>status := (if data_status d = ''successful'' then ''SUCCESSFUL'' else ''FAILED'')\<rparr>)"
  using assms
  by (simp add: webhook_verified process_webhook_found findFirst_with_status map_status_def)

theorem webhook_maps_upstream_status_witness:
  "verifyWebhookSignature example_hmac example_config
       (signature_header (example_request ''rejected'')) (rawBody (example_request ''rejected'')) = Inr True
   \<and> body_data (example_request ''rejected'') = Some \<lparr>data_ref = ''abc123'', data_status = ''rejected''\<rparr>
   \<and> payment_findFirst ''abc123'' (example_server ''PENDING'')
        = Some \<lparr>payment_id = ''p1'', amount = 500, status = ''PENDING'', paypackRef = Some ''abc123''\<rparr>
   \<and> payment_findFirst ''abc123''
        (snd (webhook example_hmac example_config (example_request ''rejected'') (example_server ''PENDING'')))
        = Some \<lparr>payment_id = ''p1'', amount = 500, status = ''FAILED'', paypackRef = Some ''abc123''\<rparr>"
proof -
  have v: "verifyWebhookSignature example_hmac example_config
       (signature_header (example_request ''rejected'')) (rawBody (example_request ''rejected'')) = Inr True"
    by (simp add: verify_Some_iff example_request_def example_hmac_def)
  have b: "body_data (example_request ''rejected'') = Some \<lparr>data_ref = ''abc123'', data_status = ''rejected''\<rparr>"
    by (simp add: example_request_def)
  have f: "payment_findFirst (data_ref \<lparr>data_ref = ''abc123'', data_status = ''rejected''\<rparr>) (example_server ''PENDING'')
        = Some \<lparr>payment_id = ''p1'', amount = 500, status = ''PENDING'', paypackRef = Some ''abc123''\<rparr>"
    by (simp add: payment_findFirst_def example_server_def)
  from webhook_maps_upstream_status [OF v b f] v b f show ?thesis by simp
qed

lemma trace_notify:
  "trace (notify i st s) =
     trace s @ (if truthy (map_of (paymentSockets s) i)
                then [SocketEmit (the (map_of (paymentSockets s) i)) ''payment:update'' st, SocketsDelete i]
                else [])"
  by (simp add: notify_def Let_def log_effect_def)

lemma notify_consumed: "\<not> truthy (map_of (paymentSockets (notify i st s)) i)"
  by (simp add: notify_def Let_def log_effect_def AList.delete_conv truthy_def)

lemma notify_unregistered: "\<not> truthy (map_of (paymentSockets s) i) \<Longrightarrow> notify i st s = s"
  by (simp add: notify_def)

lemma paymentSockets_with_status [simp]: "paymentSockets (with_status i st s) = paymentSockets s"
  by (simp add: with_status_def log_effect_def)

lemma trace_with_status [simp]: "trace (with_status i st s) = trace s @ [DbUpdateStatus i st]"
  by (simp add: with_status_def log_effect_def)

lemma payments_with_status:
  "payments (with_status i st s) = map (\<lambda>p. if payment_id p = i then p\<lparr>status := st\<rparr> else p) (payments s)"
  by (simp add: with_status_def log_effect_def)

lemma payments_with_status_twice:
  "payments (with_status i st (with_status i st s)) = payments (with_status i st s)"
  by (simp add: payments_with_status)

text \<open>
  Claim C8. Two verified webhooks for the same reference that map to the same terminal
  status, processed one after the other: the second one leaves every stored payment as the
  first one left it, pushes no notification and leaves the registry alone; its only effect
  is to write the same status again.
\<close>

theorem webhook_twice_same_status:
  assumes v1: "verifyWebhookSignature hmac cfg (signature_header req1) (rawBody req1) = Inr True"
    and v2: "verifyWebhookSignature hmac cfg (signature_header req2) (rawBody req2) = Inr True"
    and b1: "body_data req1 = Some d1"
    and b2: "body_data req2 = Some d2"
    and same_ref: "data_ref d2 = data_ref d1"
    and same_status: "map_status (data_status d2) = map_status (data_status d1)"
    and found: "payment_findFirst (data_ref d1) s = Some pay"
    and first: "s1 = snd (webhook hmac cfg req1 s)"
    and second: "s2 = snd (webhook hmac cfg req2 s1)"
  shows "fst (webhook hmac cfg req2 s1) = (200, Text ''Webhook processed.'')
       \<and> payments s2 = payments s1
       \<and> paymentSockets s2 = paymentSockets s1
       \<and> trace s2 = trace s1 @ [DbUpdateStatus (payment_id pay) (map_status (data_status d1))]"
proof -
  let ?i = "payment_id pay" and ?st = "map_status (data_status d1)"
  let ?w = "with_status ?i ?st s"
  from v1 b1 found first have s1: "s1 = notify ?i ?st ?w"
    by (simp add: webhook_verified process_webhook_found)
  from found have found1: "payment_findFirst (data_ref d2) s1 = Some (pay\<lparr>status := ?st\<rparr>)"
    by (simp add: s1 same_ref findFirst_with_status)
  have run2: "webhook hmac cfg req2 s1 =
      ((200, Text ''Webhook processed.''), notify ?i ?st (with_status ?i ?st s1))"
    using v2 b2 process_webhook_found [OF found1] by (simp add: webhook_verified same_status)
  have quiet: "\<not> truthy (map_of (paymentSockets (with_status ?i ?st s1)) ?i)"
    by (simp add: s1 notify_consumed)
  from run2 second have s2: "s2 = with_status ?i ?st s1"
    by (simp add: notify_unregistered [OF quiet])
  have "payments s2 = payments s1"
    by (simp add: s2 s1 payments_with_status)
  with run2 show ?thesis by (simp add: s2)
qed

lemma ids_with_status:
  "payment_id ` set (payments (with_status i st s)) = payment_id ` set (payments s)"
proof -
  have "map payment_id (payments (with_status i st s)) = map payment_id (payments s)"
    by (simp add: payments_with_status)
  then have "set (map payment_id (payments (with_status i st s))) = set (map payment_id (payments s))"
    by (rule arg_cong)
  then show ?thesis by simp
qed

lemma example_request_verified:
  "verifyWebhookSignature example_hmac example_config
     (signature_header (example_request st)) (rawBody (example_request st)) = Inr True"
  by (simp add: verify_Some_iff example_request_def example_hmac_def)

lemma example_server_trace: "trace (example_server st) = []"
  by (simp add: example_server_def)

lemma example_webhook:
  "webhook example_hmac example_config (example_request u) (example_server st) =
     ((200, Text ''Webhook processed.''),
      \<lparr>payments = [\<lparr>payment_id = ''p1'', amount = 500, status = map_status u, paypackRef = Some ''abc123''\<rparr>],
       paymentSockets = [],
       service = new_PaypackService, promises = [],
       trace = [DbUpdateStatus ''p1'' (map_status u),
                SocketEmit ''sock1'' ''payment:update'' (map_status u),
                SocketsDelete ''p1'']\<rparr>)"
  by (simp add: webhook_verified example_request_verified)
     (simp add: example_request_def example_server_def process_webhook_def payment_findFirst_def
        payment_update_status_def with_status_def notify_def log_effect_def truthy_def Let_def)

theorem webhook_twice_same_status_witness:
  "payment_findFirst ''abc123'' (example_server ''PENDING'')
     = Some \<lparr>payment_id = ''p1'', amount = 500, status = ''PENDING'', paypackRef = Some ''abc123''\<rparr>
   \<and> trace (snd (webhook example_hmac example_config (example_request ''successful'')
        (snd (webhook example_hmac example_config (example_request ''successful'') (example_server ''PENDING'')))))
     = [DbUpdateStatus ''p1'' ''SUCCESSFUL'', SocketEmit ''sock1'' ''payment:update'' ''SUCCESSFUL'',
        SocketsDelete ''p1'', DbUpdateStatus ''p1'' ''SUCCESSFUL'']
   \<and> payments (snd (webhook example_hmac example_config (example_request ''successful'')
        (snd (webhook example_hmac example_config (example_request ''successful'') (example_server ''PENDING'')))))
     = [\<lparr>payment_id = ''p1'', amount = 500, status = ''SUCCESSFUL'', paypackRef = Some ''abc123''\<rparr>]"
proof -
  let ?req = "example_request ''successful''"
  let ?d = "\<lparr>data_ref = ''abc123'', data_status = ''successful''\<rparr>"
  have b: "body_data ?req = Some ?d" by (simp add: example_request_def)
  have f: "payment_findFirst (data_ref ?d) (example_server ''PENDING'')
     = Some \<lparr>payment_id = ''p1'', amount = 500, status = ''PENDING'', paypackRef = Some ''abc123''\<rparr>"
    by (simp add: payment_findFirst_def example_server_def)
  from webhook_twice_same_status [OF example_request_verified example_request_verified b b refl refl f refl refl]
    f
  show ?thesis by (simp add: example_webhook map_status_def)
qed

text \<open>
  Claim C9. Whenever processing a webhook pushes a notification, the effects of that
  execution are, in this order, the write of the status to the store, the push of that
  same status, and the removal of the registration. The payment is in the store with the
  pushed status from the push on.
\<close>

theorem store_write_precedes_push:
  assumes run: "webhook hmac cfg req s = (resp, s')"
    and push: "SocketEmit sid ev st \<in> set (drop (length (trace s)) (trace s'))"
  shows "\<exists>i. trace s' = trace s @ [DbUpdateStatus i st, SocketEmit sid ev st, SocketsDelete i]
           \<and> i \<in> payment_id ` set (payments s')
           \<and> (\<forall>p \<in> set (payments s'). payment_id p = i \<longrightarrow> status p = st)"
proof (cases "verifyWebhookSignature hmac cfg (signature_header req) (rawBody req) = Inr True")
  case False
  with run have "s' = s" 
    using verify_not_False [of hmac cfg "signature_header req" "rawBody req"]
    by (cases "verifyWebhookSignature hmac cfg (signature_header req) (rawBody req)")
       (auto simp: webhook_def)
  with push show ?thesis by simp
next
  case True
  with run have pw: "process_webhook (body_data req) s = (resp, s')" by (simp add: webhook_verified)
  show ?thesis
  proof (cases "body_data req")
    case None
    with pw have "s' = s" by (simp add: process_webhook_def)
    with push show ?thesis by simp
  next
    case (Some d)
    show ?thesis
    proof (cases "payment_findFirst (data_ref d) s")
      case None
      with pw Some have "s' = s" by (simp add: process_webhook_def)
      with push show ?thesis by simp
    next
      case (Some pay)
      let ?i = "payment_id pay" and ?st = "map_status (data_status d)"
      from pw \<open>body_data req = Some d\<close> process_webhook_found [OF Some]
      have s': "s' = notify ?i ?st (with_status ?i ?st s)" by simp
      from Some have "pay \<in> set (payments s)"
        by (auto simp: payment_findFirst_def dest: find_SomeD)
      then have mem: "?i \<in> payment_id ` set (payments s')"
        by (simp add: s' ids_with_status)
      have stat: "\<forall>p \<in> set (payments s'). payment_id p = ?i \<longrightarrow> status p = ?st"
        by (auto simp: s' payments_with_status)
      from push have reg: "truthy (map_of (paymentSockets s) ?i)
          \<and> sid = the (map_of (paymentSockets s) ?i) \<and> ev = ''payment:update'' \<and> st = ?st"
        by (auto simp: s' trace_notify split: if_splits)
      then have "trace s' = trace s @ [DbUpdateStatus ?i st, SocketEmit sid ev st, SocketsDelete ?i]"
        by (simp add: s' trace_notify)
      with mem stat reg show ?thesis by blast
    qed
  qed
qed

theorem store_write_precedes_push_witness:
  "SocketEmit ''sock1'' ''payment:update'' ''SUCCESSFUL''
     \<in> set (drop (length (trace (example_server ''PENDING'')))
          (trace (snd (webhook example_hmac example_config (example_request ''successful'') (example_server ''PENDING'')))))
   \<and> trace (snd (webhook example_hmac example_config (example_request ''successful'') (example_server ''PENDING'')))
       = trace (example_server ''PENDING'')
         @ [DbUpdateStatus ''p1'' ''SUCCESSFUL'', SocketEmit ''sock1'' ''payment:update'' ''SUCCESSFUL'',
            SocketsDelete ''p1'']
   \<and> payments (snd (webhook example_hmac example_config (example_request ''successful'') (example_server ''PENDING'')))
       = [\<lparr>payment_id = ''p1'', amount = 500, status = ''SUCCESSFUL'', paypackRef = Some ''abc123''\<rparr>]"
proof -
  let ?s = "example_server ''PENDING''"
  let ?r = "webhook example_hmac example_config (example_request ''successful'') ?s"
  have run: "?r = (fst ?r, snd ?r)" by simp
  have push: "SocketEmit ''sock1'' ''payment:update'' ''SUCCESSFUL''
     \<in> set (drop (length (trace ?s)) (trace (snd ?r)))"
    by (simp add: example_webhook map_status_def) (simp add: example_server_def)
  from store_write_precedes_push [OF run push] push show ?thesis
    by (simp add: example_webhook map_status_def example_server_trace)
qed

subsection \<open>Validation of a cash-in\<close>

text \<open>
  Claim C4. A call of \<^verbatim>\<open>cashin\<close> with an amount below 100, or with a number that is not
  \<^verbatim>\<open>07\<close> followed by eight digits, throws an error of status 400 and leaves the state as it
  was: the trace gains no effect, so neither the authentication nor the cash-in request
  is sent.
\<close>

theorem cashin_rejects_invalid_input:
  assumes invalid: "cashin_amount params < 100 \<or> \<not> phone_format (number params)"
  shows "cashin cfg ev params s
           = (Inl (ApiErr (if cashin_amount params < 100 then invalid_amount else invalid_phone)), s)
       \<and> statusCode invalid_amount = 400 \<and> code invalid_amount = ''INVALID_AMOUNT''
       \<and> statusCode invalid_phone = 400 \<and> code invalid_phone = ''INVALID_PHONE''
       \<and> trace (snd (cashin cfg ev params s)) = trace s"
proof -
  have run: "cashin cfg ev params s
      = (Inl (ApiErr (if cashin_amount params < 100 then invalid_amount else invalid_phone)), s)"
  proof (cases "cashin_amount params < 100")
    case True
    then show ?thesis by (simp add: cashin_def)
  next
    case False
    with invalid have "\<not> phone_format (number params)" by simp
    with False show ?thesis by (simp add: cashin_def)
  qed
  have codes: "statusCode invalid_amount = 400 \<and> code invalid_amount = ''INVALID_AMOUNT''
       \<and> statusCode invalid_phone = 400 \<and> code invalid_phone = ''INVALID_PHONE''"
    by (simp add: invalid_amount_def invalid_phone_def new_ApiError_def)
  from run have "trace (snd (cashin cfg ev params s)) = trace s" by simp
  with run codes show ?thesis by simp
qed

theorem cashin_rejects_invalid_input_witness:
  "(cashin_amount \<lparr>number = ''0781234567'', cashin_amount = 99\<rparr> < 100
      \<or> \<not> phone_format (number \<lparr>number = ''0781234567'', cashin_amount = 99\<rparr>))
   \<and> cashin example_config example_env \<lparr>number = ''0781234567'', cashin_amount = 99\<rparr> empty_server
       = (Inl (ApiErr invalid_amount), empty_server)
   \<and> (cashin_amount \<lparr>number = ''078123456'', cashin_amount = 500\<rparr> < 100
      \<or> \<not> phone_format (number \<lparr>number = ''078123456'', cashin_amount = 500\<rparr>))
   \<and> cashin example_config example_env \<lparr>number = ''078123456'', cashin_amount = 500\<rparr> empty_server
       = (Inl (ApiErr invalid_phone), empty_server)
   \<and> phone_format ''0781234567''"
proof -
  have a: "cashin_amount \<lparr>number = ''0781234567'', cashin_amount = 99\<rparr> < 100
      \<or> \<not> phone_format (number \<lparr>number = ''0781234567'', cashin_amount = 99\<rparr>)"
    by simp
  have b: "cashin_amount \<lparr>number = ''078123456'', cashin_amount = 500\<rparr> < 100
      \<or> \<not> phone_format (number \<lparr>number = ''078123456'', cashin_amount = 500\<rparr>)"
    by (simp add: phone_format_def)
  have c: "phone_format ''0781234567''"
    by (simp add: phone_format_def is_digit_def)
  from cashin_rejects_invalid_input [OF a, of example_config example_env empty_server]
       cashin_rejects_invalid_input [OF b, of example_config example_env empty_server]
       a b c
  show ?thesis by simp
qed

text \<open>
  Claim C5. An initiate request with amount 50 passes the presence check of the route, a
  payment row is created, \<^verbatim>\<open>cashin\<close> throws its 400 error, and the route answers 500; the same
  for a malformed number. The status code carried by the error is not used by the route.
\<close>

theorem initiate_payment_validation_error_answers_500:
  "initiate_payment example_config example_env (Some ''0781234567'') (Some 50) empty_server
     = ((500, JsonError ''Failed to initiate payment.''),
        empty_server\<lparr>payments := [\<lparr>payment_id = ''p2'', amount = 50, status = ''PENDING'', paypackRef = None\<rparr>],
                     trace := [DbCreate ''p2'' 50]\<rparr>)
   \<and> fst (initiate_payment example_config example_env (Some ''12345'') (Some 500) empty_server)
     = (500, JsonError ''Failed to initiate payment.'')
   \<and> fst (cashin example_config example_env \<lparr>number = ''0781234567'', cashin_amount = 50\<rparr> empty_server)
     = Inl (ApiErr invalid_amount)
   \<and> statusCode invalid_amount = 400"
  by (simp add: initiate_payment_def truthy_def truthy_amount_def payment_create_def empty_server_def
      example_env_def log_effect_def cashin_def phone_format_def invalid_amount_def new_ApiError_def Let_def)

theorem initiate_payment_validation_error_answers_500_witness:
  "truthy (Some ''0781234567'') \<and> truthy_amount (Some 50)
   \<and> newPaymentId example_env \<notin> payment_id ` set (payments empty_server)
   \<and> (50 :: real) < 100
   \<and> fst (initiate_payment example_config example_env (Some ''0781234567'') (Some 50) empty_server)
     = (500, JsonError ''Failed to initiate payment.'')"
  using initiate_payment_validation_error_answers_500
  by (simp add: truthy_def truthy_amount_def empty_server_def)

subsection \<open>Which operations write a status\<close>

lemma payments_log_effect [simp]: "payments (log_effect e s) = payments s"
  by (simp add: log_effect_def)

lemma payments_getValidAccessToken_start [simp]:
  "payments (snd (getValidAccessToken_start cfg t s)) = payments s"
  by (simp add: getValidAccessToken_start_def authenticate_start_def Let_def split: prod.splits)

lemma payments_getValidAccessToken [simp]:
  "payments (snd (getValidAccessToken cfg ev s)) = payments s"
proof -
  obtain h s1 where st: "getValidAccessToken_start cfg (now ev) s = (h, s1)"
    by (cases "getValidAccessToken_start cfg (now ev) s")
  then have "payments s1 = payments s"
    using payments_getValidAccessToken_start [of cfg "now ev" s] by simp
  with st show ?thesis
    by (cases h)
       (simp_all add: getValidAccessToken_def authenticate_finish_def
          getValidAccessToken_finally_def Let_def)
qed

lemma payments_cashin [simp]: "payments (snd (cashin cfg ev params s)) = payments s"
proof -
  obtain r s1 where g: "getValidAccessToken cfg ev s = (r, s1)"
    by (cases "getValidAccessToken cfg ev s")
  then have "payments s1 = payments s"
    using payments_getValidAccessToken [of cfg ev s] by simp
  with g show ?thesis
    by (cases r; cases "cashinReply ev") (simp_all add: cashin_def Let_def)
qed

lemma initiate_payment_keeps_status:
  assumes k: "k < length (payments s)"
  shows "k < length (payments (snd (initiate_payment cfg ev ph amt s)))
       \<and> payment_id (payments (snd (initiate_payment cfg ev ph amt s)) ! k) = payment_id (payments s ! k)
       \<and> status (payments (snd (initiate_payment cfg ev ph amt s)) ! k) = status (payments s ! k)"
proof (cases "\<not> truthy ph \<or> \<not> truthy_amount amt")
  case True
  with k show ?thesis by (simp add: initiate_payment_def)
next
  case False
  note ok = this
  show ?thesis
  proof (cases "payment_create (newPaymentId ev) (the amt) s")
    case (Inl e)
    with ok k show ?thesis by (simp add: initiate_payment_def)
  next
    case (Inr ps)
    obtain pay s1 where ps: "ps = (pay, s1)" by (cases ps)
    from Inr ps have s1: "payments s1 = payments s @ [pay]"
      by (auto simp: payment_create_def Let_def split: if_splits)
    obtain r s2 where c: "cashin cfg ev \<lparr>number = the ph, cashin_amount = the amt\<rparr> s1 = (r, s2)"
      by (cases "cashin cfg ev \<lparr>number = the ph, cashin_amount = the amt\<rparr> s1")
    then have s2: "payments s2 = payments s @ [pay]"
      using payments_cashin [of cfg ev "\<lparr>number = the ph, cashin_amount = the amt\<rparr>" s1] s1 by simp
    show ?thesis
    proof (cases r)
      case (Inl e)
      with ok Inr ps c s2 k show ?thesis
        by (simp add: initiate_payment_def nth_append)
    next
      case (Inr resp)
      note r = this
      show ?thesis
      proof (cases "payment_update_ref (payment_id pay) (ref resp) s2")
        case (Inl e)
        with ok \<open>payment_create (newPaymentId ev) (the amt) s = Inr ps\<close> ps c r s2 k show ?thesis
          by (simp add: initiate_payment_def nth_append)
      next
        case (Inr s3)
        then have s3: "payments s3 =
            map (\<lambda>p. if payment_id p = payment_id pay then p\<lparr>paypackRef := Some (ref resp)\<rparr> else p)
              (payments s @ [pay])"
          by (auto simp: payment_update_ref_def s2 split: if_splits)
        from ok \<open>payment_create (newPaymentId ev) (the amt) s = Inr ps\<close> ps c r Inr
        have "snd (initiate_payment cfg ev ph amt s) = s3"
          by (simp add: initiate_payment_def)
        with s3 k show ?thesis by (simp add: nth_append)
      qed
    qed
  qed
qed

lemma webhook_status_change:
  assumes k: "k < length (payments s)"
  shows "k < length (payments (snd (webhook hmac cfg req s)))
       \<and> payment_id (payments (snd (webhook hmac cfg req s)) ! k) = payment_id (payments s ! k)
       \<and> (status (payments (snd (webhook hmac cfg req s)) ! k) = status (payments s ! k)
          \<or> (\<exists>d pay. verifyWebhookSignature hmac cfg (signature_header req) (rawBody req) = Inr True
                \<and> body_data req = Some d
                \<and> payment_findFirst (data_ref d) s = Some pay
                \<and> payment_id (payments s ! k) = payment_id pay
                \<and> status (payments (snd (webhook hmac cfg req s)) ! k) = map_status (data_status d)))"
proof (cases "verifyWebhookSignature hmac cfg (signature_header req) (rawBody req) = Inr True")
  case False
  then have "snd (webhook hmac cfg req s) = s"
    using verify_not_False [of hmac cfg "signature_header req" "rawBody req"]
    by (cases "verifyWebhookSignature hmac cfg (signature_header req) (rawBody req)")
       (auto simp: webhook_def)
  with k show ?thesis by simp
next
  case True
  then have w: "webhook hmac cfg req s = process_webhook (body_data req) s"
    by (rule webhook_verified)
  show ?thesis
  proof (cases "body_data req")
    case None
    with w k show ?thesis by (simp add: process_webhook_def)
  next
    case (Some d)
    note d = this
    show ?thesis
    proof (cases "payment_findFirst (data_ref d) s")
      case None
      with w d k show ?thesis by (simp add: process_webhook_def)
    next
      case (Some pay)
      with w d have s': "payments (snd (webhook hmac cfg req s))
          = map (\<lambda>p. if payment_id p = payment_id pay then p\<lparr>status := map_status (data_status d)\<rparr> else p)
              (payments s)"
        by (simp add: process_webhook_found payments_with_status)
      show ?thesis
      proof (cases "payment_id (payments s ! k) = payment_id pay")
        case True
        with k True s' have "status (payments (snd (webhook hmac cfg req s)) ! k) = map_status (data_status d)"
          by simp
        with k s' \<open>verifyWebhookSignature hmac cfg (signature_header req) (rawBody req) = Inr True\<close>
          d Some True
        show ?thesis by simp
      next
        case False
        with k s' show ?thesis by simp
      qed
    qed
  qed
qed

lemma webhook_writes_resolved:
  assumes k: "k < length (payments s)"
    and verified: "verifyWebhookSignature hmac cfg (signature_header req) (rawBody req) = Inr True"
    and parsed: "body_data req = Some d"
    and resolves: "payment_findFirst (data_ref d) s = Some pay"
    and row: "payment_id (payments s ! k) = payment_id pay"
  shows "status (payments (snd (webhook hmac cfg req s)) ! k) = map_status (data_status d)"
  using assms
  by (simp add: webhook_verified process_webhook_found payments_with_status)

text \<open>
  Claim C3, as stated, fails: a verified webhook with upstream status \<^verbatim>\<open>failed\<close> for a
  payment that is \<^verbatim>\<open>SUCCESSFUL\<close> makes it \<^verbatim>\<open>FAILED\<close>.
\<close>

theorem terminal_status_overwritten:
  "payments (example_server ''SUCCESSFUL'')
     = [\<lparr>payment_id = ''p1'', amount = 500, status = ''SUCCESSFUL'', paypackRef = Some ''abc123''\<rparr>]
   \<and> payments (apply_operation example_hmac example_config (Webhook (example_request ''failed''))
        (example_server ''SUCCESSFUL''))
     = [\<lparr>payment_id = ''p1'', amount = 500, status = ''FAILED'', paypackRef = Some ''abc123''\<rparr>]"
  by (simp add: apply_operation_def example_webhook map_status_def) (simp add: example_server_def)

text \<open>
  Claim C3, amended. Every operation keeps each stored payment at its place with its key.
  It leaves the status of the payment unchanged, unless the operation is a webhook with a
  valid signature whose reference resolves to a payment with the same key: such a webhook
  sets the status to the one mapped from the upstream status, \<^verbatim>\<open>SUCCESSFUL\<close> or \<^verbatim>\<open>FAILED\<close>,
  whatever the current status is.
\<close>

theorem status_written_only_by_webhook:
  assumes k: "k < length (payments s)"
  shows "k < length (payments (apply_operation hmac cfg op s))
       \<and> payment_id (payments (apply_operation hmac cfg op s) ! k) = payment_id (payments s ! k)
       \<and> (status (payments (apply_operation hmac cfg op s) ! k) = status (payments s ! k)
          \<or> (\<exists>req d pay. op = Webhook req
                \<and> verifyWebhookSignature hmac cfg (signature_header req) (rawBody req) = Inr True
                \<and> body_data req = Some d
                \<and> payment_findFirst (data_ref d) s = Some pay
                \<and> payment_id (payments s ! k) = payment_id pay
                \<and> status (payments (apply_operation hmac cfg op s) ! k)
                    = (if data_status d = ''successful'' then ''SUCCESSFUL'' else ''FAILED'')))
       \<and> (verifyWebhookSignature hmac cfg (signature_header rq) (rawBody rq) = Inr True
            \<longrightarrow> body_data rq = Some dt
            \<longrightarrow> payment_findFirst (data_ref dt) s = Some py
            \<longrightarrow> payment_id (payments s ! k) = payment_id py
            \<longrightarrow> status (payments (apply_operation hmac cfg (Webhook rq) s) ! k)
                  = (if data_status dt = ''successful'' then ''SUCCESSFUL'' else ''FAILED''))"
proof -
  have only: "k < length (payments (apply_operation hmac cfg op s))
       \<and> payment_id (payments (apply_operation hmac cfg op s) ! k) = payment_id (payments s ! k)
       \<and> (status (payments (apply_operation hmac cfg op s) ! k) = status (payments s ! k)
          \<or> (\<exists>req d pay. op = Webhook req
                \<and> verifyWebhookSignature hmac cfg (signature_header req) (rawBody req) = Inr True
                \<and> body_data req = Some d
                \<and> payment_findFirst (data_ref d) s = Some pay
                \<and> payment_id (payments s ! k) = payment_id pay
                \<and> status (payments (apply_operation hmac cfg op s) ! k)
                    = (if data_status d = ''successful'' then ''SUCCESSFUL'' else ''FAILED'')))"
  proof (cases op)
    case (InitiatePayment ev ph amt)
    with initiate_payment_keeps_status [OF k, of cfg ev ph amt] show ?thesis
      by (simp add: apply_operation_def)
  next
    case (Webhook req)
    with webhook_status_change [OF k, of hmac cfg req] show ?thesis
      by (auto simp: apply_operation_def map_status_def)
  next
    case (RegisterPayment sid i)
    with k show ?thesis by (simp add: apply_operation_def registerPayment_def)
  next
    case (Disconnect sid)
    with k show ?thesis by (simp add: apply_operation_def disconnect_def)
  qed
  have writes: "verifyWebhookSignature hmac cfg (signature_header rq) (rawBody rq) = Inr True
            \<longrightarrow> body_data rq = Some dt
            \<longrightarrow> payment_findFirst (data_ref dt) s = Some py
            \<longrightarrow> payment_id (payments s ! k) = payment_id py
            \<longrightarrow> status (payments (apply_operation hmac cfg (Webhook rq) s) ! k)
                  = (if data_status dt = ''successful'' then ''SUCCESSFUL'' else ''FAILED'')"
    using webhook_writes_resolved [OF k, of hmac cfg rq dt py]
    by (simp add: apply_operation_def map_status_def)
  from only writes show ?thesis by (intro conjI) blast+
qed

theorem status_written_only_by_webhook_witness:
  "0 < length (payments (example_server ''SUCCESSFUL''))
   \<and> verifyWebhookSignature example_hmac example_config
        (signature_header (example_request ''failed'')) (rawBody (example_request ''failed'')) = Inr True
   \<and> body_data (example_request ''failed'') = Some \<lparr>data_ref = ''abc123'', data_status = ''failed''\<rparr>
   \<and> payment_findFirst ''abc123'' (example_server ''SUCCESSFUL'')
        = Some \<lparr>payment_id = ''p1'', amount = 500, status = ''SUCCESSFUL'', paypackRef = Some ''abc123''\<rparr>
   \<and> payment_id (payments (example_server ''SUCCESSFUL'') ! 0) = ''p1''
   \<and> status (payments (apply_operation example_hmac example_config (Webhook (example_request ''failed''))
        (example_server ''SUCCESSFUL'')) ! 0) = ''FAILED''
   \<and> status (payments (apply_operation example_hmac example_config (RegisterPayment ''sock2'' ''p1'')
        (example_server ''SUCCESSFUL'')) ! 0) = ''SUCCESSFUL''"
proof -
  let ?s = "example_server ''SUCCESSFUL''"
  let ?d = "\<lparr>data_ref = ''abc123'', data_status = ''failed''\<rparr>"
  let ?pay = "\<lparr>payment_id = ''p1'', amount = 500, status = ''SUCCESSFUL'', paypackRef = Some ''abc123''\<rparr>"
  have k: "0 < length (payments ?s)" by (simp add: example_server_def)
  have b: "body_data (example_request ''failed'') = Some ?d" by (simp add: example_request_def)
  have f: "payment_findFirst (data_ref ?d) ?s = Some ?pay"
    by (simp add: payment_findFirst_def example_server_def)
  have row: "payment_id (payments ?s ! 0) = payment_id ?pay" by (simp add: example_server_def)
  from status_written_only_by_webhook [OF k, of example_hmac example_config
         "RegisterPayment ''sock2'' ''p1''" "example_request ''failed''" ?d ?pay]
       example_request_verified [of "''failed''"] k b f row
  show ?thesis
    by (simp add: registerPayment_def apply_operation_def) (simp add: example_server_def)
qed

subsection \<open>Single-flight token refresh\<close>

lemma start_joins:
  assumes "isRefreshingToken (service s)" and "tokenRefreshPromise (service s) = Some p"
  shows "getValidAccessToken_start cfg t s = (Joined p, s)"
  using assms by (simp add: getValidAccessToken_start_def)

lemma calls_join:
  assumes "isRefreshingToken (service s)" and "tokenRefreshPromise (service s) = Some p"
  shows "getValidAccessToken_calls cfg ts s = (replicate (length ts) (Joined p), s)"
  using assms by (induction ts) (simp_all add: start_joins)

lemma start_refreshes:
  assumes "\<not> isRefreshingToken (service s)" and "\<not> token_valid (service s) t"
  shows "getValidAccessToken_start cfg t s = (Started (length (promises s)), refreshing cfg s)"
  using assms
  by (simp add: getValidAccessToken_start_def authenticate_start_def log_effect_def refreshing_def Let_def)

lemma refreshing_in_flight:
  "isRefreshingToken (service (refreshing cfg s))"
  "tokenRefreshPromise (service (refreshing cfg s)) = Some (length (promises s))"
  by (simp_all add: refreshing_def)

lemma finish_in_flight:
  "isRefreshingToken (service (authenticate_finish p r s)) = isRefreshingToken (service s)"
  "tokenRefreshPromise (service (authenticate_finish p r s)) = tokenRefreshPromise (service s)"
  by (simp_all add: authenticate_finish_def Let_def split: axios_reply.splits option.splits)

lemma trace_finish [simp]: "trace (authenticate_finish p r s) = trace s"
  by (simp add: authenticate_finish_def Let_def)

lemma outcome_settled:
  "p < length (promises s) \<Longrightarrow>
   promise_outcome (getValidAccessToken_finally (authenticate_finish p r s)) p = Some (authenticate_result r)"
  by (cases "authenticate_result r")
     (simp_all add: promise_outcome_def getValidAccessToken_finally_def authenticate_finish_def
        settle_def Let_def)

lemma cycle_unfolded:
  assumes idle: "\<not> isRefreshingToken (service s)" and stale: "\<not> token_valid (service s) t"
  shows "refresh_cycle cfg (t # ts1) (length (promises s)) r ts2 s =
           (Started (length (promises s)) # replicate (length ts1 + length ts2) (Joined (length (promises s))),
            getValidAccessToken_finally (authenticate_finish (length (promises s)) r (refreshing cfg s)))"
proof -
  let ?p = "length (promises s)"
  let ?s1 = "refreshing cfg s"
  let ?s2 = "authenticate_finish ?p r ?s1"
  have c1: "getValidAccessToken_calls cfg (t # ts1) s = (Started ?p # replicate (length ts1) (Joined ?p), ?s1)"
    by (simp add: start_refreshes [OF idle stale] calls_join [OF refreshing_in_flight])
  have c2: "getValidAccessToken_calls cfg ts2 ?s2 = (replicate (length ts2) (Joined ?p), ?s2)"
    by (rule calls_join) (simp_all add: finish_in_flight refreshing_in_flight)
  show ?thesis
    by (simp add: refresh_cycle_def c1 c2 replicate_add del: getValidAccessToken_calls.simps)
qed

text \<open>
  Claim C1. Starting with no refresh in flight and no usable cached token at time \<open>t\<close>, let
  any number of calls arrive after the call at \<open>t\<close> before the reply of the gateway, and any
  number between the reply and the \<^verbatim>\<open>finally\<close> block. The first call starts the refresh and
  every other call joins its promise; the trace gains exactly one authentication request;
  every caller receives the result of that one request, the same token or the same error;
  and afterwards no refresh is in flight, so the next cycle starts the same way.
\<close>

theorem single_flight_refresh:
  assumes idle: "\<not> isRefreshingToken (service s)"
    and stale: "\<not> token_valid (service s) t"
  shows "fst (refresh_cycle cfg (t # ts1) (length (promises s)) r ts2 s)
           = Started (length (promises s)) # replicate (length ts1 + length ts2) (Joined (length (promises s)))
       \<and> trace (snd (refresh_cycle cfg (t # ts1) (length (promises s)) r ts2 s))
           = trace s @ [NetAuthorize (PAYPACK_CLIENT_ID cfg) (PAYPACK_CLIENT_SECRET cfg)]
       \<and> (\<forall>h \<in> set (fst (refresh_cycle cfg (t # ts1) (length (promises s)) r ts2 s)).
             handle_outcome (snd (refresh_cycle cfg (t # ts1) (length (promises s)) r ts2 s)) h
               = Some (authenticate_result r))
       \<and> \<not> isRefreshingToken (service (snd (refresh_cycle cfg (t # ts1) (length (promises s)) r ts2 s)))"
proof -
  let ?p = "length (promises s)"
  let ?s' = "getValidAccessToken_finally (authenticate_finish ?p r (refreshing cfg s))"
  have "?p < length (promises (refreshing cfg s))" by (simp add: refreshing_def)
  then have out: "promise_outcome ?s' ?p = Some (authenticate_result r)" by (rule outcome_settled)
  have tr: "trace ?s' = trace s @ [NetAuthorize (PAYPACK_CLIENT_ID cfg) (PAYPACK_CLIENT_SECRET cfg)]"
    by (simp add: getValidAccessToken_finally_def refreshing_def)
  have fl: "\<not> isRefreshingToken (service ?s')"
    by (simp add: getValidAccessToken_finally_def)
  from out have "\<forall>h \<in> set (Started ?p # replicate (length ts1 + length ts2) (Joined ?p)).
      handle_outcome ?s' h = Some (authenticate_result r)"
    by (auto simp: handle_outcome_def)
  with tr fl show ?thesis
    by (simp only: cycle_unfolded [OF idle stale] fst_conv snd_conv simp_thms)
qed

theorem single_flight_refresh_witness:
  "\<not> isRefreshingToken (service empty_server) \<and> \<not> token_valid (service empty_server) 1000
   \<and> refresh_cycle example_config [1000, 1001, 1002] 0 (authReply example_env) [1003] empty_server
      = ([Started 0, Joined 0, Joined 0, Joined 0],
         empty_server\<lparr>service := \<lparr>accessToken = Some ''tok'', tokenExpiresAt = Some 4000000,
                                   isRefreshingToken = False, tokenRefreshPromise = None\<rparr>,
                      promises := [Fulfilled ''tok''],
                      trace := [NetAuthorize ''client'' ''secret'']\<rparr>)
   \<and> handle_outcome
         (snd (refresh_cycle example_config [1000, 1001, 1002] 0 (authReply example_env) [1003] empty_server))
         (Started 0) = Some (Inr ''tok'')
   \<and> handle_outcome
         (snd (refresh_cycle example_config [1000, 1001, 1002] 0 (authReply example_env) [1003] empty_server))
         (Joined 0) = Some (Inr ''tok'')"
proof -
  have idle: "\<not> isRefreshingToken (service empty_server)"
    by (simp add: empty_server_def new_PaypackService_def)
  have stale: "\<not> token_valid (service empty_server) 1000"
    by (simp add: empty_server_def new_PaypackService_def token_valid_def truthy_def)
  have p: "length (promises empty_server) = 0" by (simp add: empty_server_def)
  have r: "authenticate_result (authReply example_env) = Inr ''tok''"
    by (simp add: authenticate_result_def token_expiry_def example_env_def)
  have ev: "refresh_cycle example_config [1000, 1001, 1002] 0 (authReply example_env) [1003] empty_server
      = ([Started 0, Joined 0, Joined 0, Joined 0],
         empty_server\<lparr>service := \<lparr>accessToken = Some ''tok'', tokenExpiresAt = Some 4000000,
                                   isRefreshingToken = False, tokenRefreshPromise = None\<rparr>,
                      promises := [Fulfilled ''tok''],
                      trace := [NetAuthorize ''client'' ''secret'']\<rparr>)"
    using cycle_unfolded [OF idle stale, of example_config "[1001, 1002]" "authReply example_env" "[1003]"]
    by (simp add: p)
       (simp add: getValidAccessToken_finally_def authenticate_finish_def refreshing_def settle_def
          authenticate_result_def token_expiry_def example_env_def empty_server_def
          new_PaypackService_def example_config_def Let_def)
  from single_flight_refresh [OF idle stale, of example_config "[1001, 1002]" "authReply example_env" "[1003]"]
    idle stale ev
  show ?thesis by (simp add: p r example_config_def)
qed

end
